theory Spec2Isabelle
  imports Complex_Main "HOL-Library.Char_ord" "HOL-Library.List_Lexorder"
begin

section \<open>Column values\<close>

text \<open>
  A numeric cell read from a CSV file is a finite number or missing: \<open>rat option\<close>, with
  \<open>None\<close> for the empty cell. Arithmetic is exact (no rounding, no overflow, no signed
  zero). A computed float64 column can also hold the two infinities, which true division
  by zero produces, and NaN, which is what the data-frame library calls null.
\<close>

datatype fval = NaN | NInf | Fin rat | PInf

fun of_cell :: "rat option \<Rightarrow> fval" where
  "of_cell None = NaN"
| "of_cell (Some v) = Fin v"

definition isna :: "fval \<Rightarrow> bool" where
  "isna x = (x = NaN)"

text \<open>Comparison of floats: every comparison with NaN is false.\<close>

fun fless :: "fval \<Rightarrow> fval \<Rightarrow> bool" where
  "fless NaN _ = False"
| "fless _ NaN = False"
| "fless NInf NInf = False"
| "fless NInf _ = True"
| "fless (Fin a) (Fin b) = (a < b)"
| "fless (Fin a) PInf = True"
| "fless (Fin a) NInf = False"
| "fless PInf _ = False"

fun fle :: "fval \<Rightarrow> fval \<Rightarrow> bool" where
  "fle NaN _ = False"
| "fle _ NaN = False"
| "fle NInf _ = True"
| "fle (Fin a) (Fin b) = (a \<le> b)"
| "fle (Fin a) PInf = True"
| "fle (Fin a) NInf = False"
| "fle PInf PInf = True"
| "fle PInf _ = False"

text \<open>Element-wise \<open>+\<close>, \<open>-\<close> and \<open>/\<close> of two float columns.\<close>

fun pd_add :: "fval \<Rightarrow> fval \<Rightarrow> fval" where
  "pd_add NaN _ = NaN"
| "pd_add _ NaN = NaN"
| "pd_add (Fin a) (Fin b) = Fin (a + b)"
| "pd_add PInf NInf = NaN"
| "pd_add NInf PInf = NaN"
| "pd_add PInf _ = PInf"
| "pd_add NInf _ = NInf"
| "pd_add (Fin a) y = y"

fun pd_neg :: "fval \<Rightarrow> fval" where
  "pd_neg NaN = NaN"
| "pd_neg NInf = PInf"
| "pd_neg PInf = NInf"
| "pd_neg (Fin a) = Fin (- a)"

definition pd_sub :: "fval \<Rightarrow> fval \<Rightarrow> fval" where
  "pd_sub x y = pd_add x (pd_neg y)"

text \<open>
  True division of floats does not raise: a non-zero number over zero is an infinity
  with the numerator's sign, and zero over zero is NaN.
\<close>

fun pd_div :: "fval \<Rightarrow> fval \<Rightarrow> fval" where
  "pd_div NaN _ = NaN"
| "pd_div _ NaN = NaN"
| "pd_div (Fin a) (Fin b) =
     (if b \<noteq> 0 then Fin (a / b)
      else if 0 < a then PInf
      else if a < 0 then NInf
      else NaN)"
| "pd_div (Fin a) _ = Fin 0"
| "pd_div PInf (Fin b) = (if 0 \<le> b then PInf else NInf)"
| "pd_div NInf (Fin b) = (if 0 \<le> b then NInf else PInf)"
| "pd_div _ _ = NaN"

fun pd_mul :: "fval \<Rightarrow> fval \<Rightarrow> fval" where
  "pd_mul NaN _ = NaN"
| "pd_mul _ NaN = NaN"
| "pd_mul (Fin a) (Fin b) = Fin (a * b)"
| "pd_mul (Fin a) PInf = (if a = 0 then NaN else if 0 < a then PInf else NInf)"
| "pd_mul (Fin a) NInf = (if a = 0 then NaN else if 0 < a then NInf else PInf)"
| "pd_mul PInf (Fin b) = (if b = 0 then NaN else if 0 < b then PInf else NInf)"
| "pd_mul NInf (Fin b) = (if b = 0 then NaN else if 0 < b then NInf else PInf)"
| "pd_mul PInf PInf = PInf"
| "pd_mul NInf NInf = PInf"
| "pd_mul PInf NInf = NInf"
| "pd_mul NInf PInf = NInf"

text \<open>\<open>Series.replace(0, np.nan)\<close>.\<close>

definition replace_0_nan :: "fval \<Rightarrow> fval" where
  "replace_0_nan x = (if x = Fin 0 then NaN else x)"

text \<open>
  \<open>mean\<close> of a column, as \<open>Series.mean()\<close> and the \<open>'mean'\<close> aggregation compute it:
  nulls are skipped, and the mean of no values is NaN.
\<close>

definition pd_sum :: "fval list \<Rightarrow> fval" where
  "pd_sum xs = fold (\<lambda>x acc. pd_add acc x) (filter (\<lambda>x. \<not> isna x) xs) (Fin 0)"

definition pd_mean :: "fval list \<Rightarrow> fval" where
  "pd_mean xs =
     (let vs = filter (\<lambda>x. \<not> isna x) xs
      in if vs = [] then NaN else pd_div (pd_sum xs) (Fin (of_nat (length vs))))"

section \<open>Bucketing with \<open>pd.cut\<close>\<close>

text \<open>
  \<open>pd.cut(x, bins, labels)\<close> with the default \<open>right=True\<close>, \<open>include_lowest=False\<close>:
  the position of a value is found by \<open>searchsorted(side='left')\<close>, the number of bin
  edges strictly below it; position \<open>0\<close> (at or below the first edge) and position
  \<open>len(bins)\<close> (above the last edge) are null, like a null value.
\<close>

definition searchsorted_left :: "fval list \<Rightarrow> fval \<Rightarrow> nat" where
  "searchsorted_left bins x = length (takeWhile (\<lambda>b. fless b x) bins)"

definition pd_cut :: "fval \<Rightarrow> fval list \<Rightarrow> string list \<Rightarrow> string option" where
  "pd_cut x bins labels =
     (let ids = searchsorted_left bins x
      in if isna x \<or> ids = length bins \<or> ids = 0 then None
         else Some (labels ! (ids - 1)))"

section \<open>Warehouse and vehicle tables\<close>

record warehouse_row =
  w_Product_Category :: string
  w_Location :: string
  Current_Stock_Units :: "rat option"
  Reorder_Level :: "rat option"
  Storage_Cost_per_Unit :: "rat option"
  Last_Restocked_Date :: string

record warehouse_derived = warehouse_row +
  Stock_Ratio :: fval
  Stock_Status :: "string option"

definition stock_bins :: "fval list" where
  "stock_bins = [Fin 0, Fin (1 / 2), Fin (4 / 5), Fin (6 / 5), PInf]"

definition stock_labels :: "string list" where
  "stock_labels = [''Critical'', ''Low'', ''Normal'', ''Excess'']"

definition stock_status_of :: "fval \<Rightarrow> string option" where
  "stock_status_of ratio = pd_cut ratio stock_bins stock_labels"

definition prepare_warehouse_row :: "warehouse_row \<Rightarrow> warehouse_derived" where
  "prepare_warehouse_row w =
     (let ratio = pd_div (of_cell (Current_Stock_Units w)) (of_cell (Reorder_Level w))
      in warehouse_row.extend w
           \<lparr>Stock_Ratio = ratio, Stock_Status = stock_status_of ratio\<rparr>)"

definition prepare_warehouse :: "warehouse_row list \<Rightarrow> warehouse_derived list" where
  "prepare_warehouse ws = map prepare_warehouse_row ws"

record vehicle_row =
  Vehicle_Type :: string
  Fuel_Efficiency_KM_per_L :: "rat option"
  CO2_Emissions_Kg_per_KM :: "rat option"

record vehicle_derived = vehicle_row +
  Efficiency_Score :: fval

definition prepare_vehicle_row :: "vehicle_row \<Rightarrow> vehicle_derived" where
  "prepare_vehicle_row v =
     vehicle_row.extend v
       \<lparr>Efficiency_Score =
          pd_div (of_cell (Fuel_Efficiency_KM_per_L v)) (of_cell (CO2_Emissions_Kg_per_KM v))\<rparr>"

section \<open>Critical-stock alerts\<close>

text \<open>
  The first section of \<open>show_alerts\<close>: the rows whose status equals \<open>'Critical'\<close> (a null
  status compares unequal), at most the first three of them, one alert each. An alert is
  kept as the values its text is formatted from. The later sections of \<open>show_alerts\<close>
  append alerts of other kinds and are not modelled.
\<close>

datatype alert =
  Critical_Stock_Alert string string "rat option" "rat option"

definition critical_stock :: "warehouse_derived list \<Rightarrow> warehouse_derived list" where
  "critical_stock warehouse = filter (\<lambda>w. Stock_Status w = Some ''Critical'') warehouse"

definition critical_alert_of :: "warehouse_derived \<Rightarrow> alert" where
  "critical_alert_of row =
     Critical_Stock_Alert (w_Product_Category row) (w_Location row)
       (Current_Stock_Units row) (Reorder_Level row)"

definition show_alerts_critical_stock :: "warehouse_derived list \<Rightarrow> alert list" where
  "show_alerts_critical_stock warehouse =
     (let cs = critical_stock warehouse
      in if cs \<noteq> [] then map critical_alert_of (take 3 cs) else [])"

section \<open>Order, delivery, route, cost and feedback tables\<close>

record order_row =
  o_Order_ID :: string
  Order_Date :: string
  Priority :: string
  Product_Category :: string
  Order_Value_INR :: "rat option"
  Promised_Delivery_Days :: "rat option"

record delivery_row =
  d_Order_ID :: string
  Actual_Delivery_Days :: "rat option"

record route_row =
  r_Order_ID :: string
  Route :: string
  Origin :: string
  Destination :: string
  Distance_KM :: "rat option"
  Carrier :: string

record cost_row =
  c_Order_ID :: string
  Fuel_Cost :: "rat option"
  Labor_Cost :: "rat option"
  Vehicle_Maintenance :: "rat option"
  Insurance :: "rat option"
  Packaging_Cost :: "rat option"
  Technology_Platform_Fee :: "rat option"
  Other_Overhead :: "rat option"

record feedback_row =
  f_Order_ID :: string
  f_Rating :: "rat option"
  f_Issue_Category :: "string option"

record feedback_agg_row =
  fa_Order_ID :: string
  fa_Rating :: fval
  fa_Issue_Category :: string

section \<open>Left merge\<close>

text \<open>
  \<open>pd.merge(left, right, on='Order_ID', how='left')\<close>: the rows of \<open>left\<close> in their
  order; each is paired with every row of \<open>right\<close> that has its key, in the order of
  \<open>right\<close>, and with nulls (\<open>None\<close>) when there is none.
\<close>

definition merge_left ::
  "('a \<Rightarrow> string) \<Rightarrow> ('b \<Rightarrow> string) \<Rightarrow> 'a list \<Rightarrow> 'b list \<Rightarrow> ('a \<times> 'b option) list" where
  "merge_left kl kr left right =
     concat (map (\<lambda>l. case filter (\<lambda>r. kr r = kl l) right of
                         [] \<Rightarrow> [(l, None)]
                       | ms \<Rightarrow> map (\<lambda>r. (l, Some r)) ms) left)"

section \<open>Feedback aggregation\<close>

fun dropna :: "'a option list \<Rightarrow> 'a list" where
  "dropna [] = []"
| "dropna (None # xs) = dropna xs"
| "dropna (Some v # xs) = v # dropna xs"

text \<open>
  \<open>Series.mode()\<close>: nulls are dropped, and the values that occur most often are returned
  sorted in ascending order (strings compare lexicographically by character code).
\<close>

definition pd_mode :: "string option list \<Rightarrow> string list" where
  "pd_mode x =
     (let vals = dropna x
      in if vals = [] then []
         else sort (remdups (filter (\<lambda>c. count_list vals c = Max (set (map (count_list vals) vals))) vals)))"

text \<open>The aggregation \<open>lambda x: x.mode()[0] if len(x.mode()) > 0 else 'None'\<close>.\<close>

definition issue_category_agg :: "string option list \<Rightarrow> string" where
  "issue_category_agg x = (case pd_mode x of [] \<Rightarrow> ''None'' | m # _ \<Rightarrow> m)"

text \<open>
  \<open>feedback.groupby('Order_ID').agg(...).reset_index()\<close>: one row for each key that
  occurs, keys in ascending order, each group holding its rows in input order.
\<close>

definition feedback_group :: "feedback_row list \<Rightarrow> string \<Rightarrow> feedback_row list" where
  "feedback_group feedback k = filter (\<lambda>f. f_Order_ID f = k) feedback"

definition feedback_agg :: "feedback_row list \<Rightarrow> feedback_agg_row list" where
  "feedback_agg feedback =
     map (\<lambda>k. \<lparr>fa_Order_ID = k,
               fa_Rating = pd_mean (map (\<lambda>f. of_cell (f_Rating f)) (feedback_group feedback k)),
               fa_Issue_Category = issue_category_agg (map f_Issue_Category (feedback_group feedback k))\<rparr>)
         (sort (remdups (map f_Order_ID feedback)))"

text \<open>
  The tie-break the specification names, for comparison: among the values that occur most
  often, the one met first in input order.
\<close>

definition first_encountered_mode :: "string option list \<Rightarrow> string" where
  "first_encountered_mode x =
     (let vals = dropna x
      in case filter (\<lambda>c. count_list vals c = Max (set (map (count_list vals) vals))) vals of
           [] \<Rightarrow> ''None''
         | c # _ \<Rightarrow> c)"

section \<open>The merged table and its derived columns\<close>

type_synonym joined =
  "(((order_row \<times> delivery_row option) \<times> route_row option) \<times> cost_row option) \<times> feedback_agg_row option"

definition j_order :: "joined \<Rightarrow> order_row" where
  "j_order j = fst (fst (fst (fst j)))"

definition j_delivery :: "joined \<Rightarrow> delivery_row option" where
  "j_delivery j = snd (fst (fst (fst j)))"

definition j_route :: "joined \<Rightarrow> route_row option" where
  "j_route j = snd (fst (fst j))"

definition j_cost :: "joined \<Rightarrow> cost_row option" where
  "j_cost j = snd (fst j)"

definition j_feedback :: "joined \<Rightarrow> feedback_agg_row option" where
  "j_feedback j = snd j"

text \<open>A column that came from a right-hand table is null where the row had no match.\<close>

definition num_col :: "'r option \<Rightarrow> ('r \<Rightarrow> rat option) \<Rightarrow> rat option" where
  "num_col r f = (case r of None \<Rightarrow> None | Some x \<Rightarrow> f x)"

text \<open>A null cell read as 0, the value it contributes to a sum that skips nulls.\<close>

definition null_as_0 :: "rat option \<Rightarrow> rat" where
  "null_as_0 c = (case c of None \<Rightarrow> 0 | Some v \<Rightarrow> v)"

definition cost_columns :: "(cost_row \<Rightarrow> rat option) list" where
  "cost_columns = [Fuel_Cost, Labor_Cost, Vehicle_Maintenance, Insurance,
                   Packaging_Cost, Technology_Platform_Fee, Other_Overhead]"

definition delay_bins :: "fval list" where
  "delay_bins = [NInf, Fin 0, Fin 2, Fin 5, PInf]"

definition delay_labels :: "string list" where
  "delay_labels = [''On Time'', ''Minor Delay (<2 days)'', ''Moderate Delay (2-5 days)'',
                   ''Major Delay (>5 days)'']"

record merged_row =
  base :: joined
  Rating :: fval
  Delivery_Delay_Days :: fval
  On_Time :: bool
  Delay_Severity :: "string option"
  Total_Cost :: fval
  Cost_per_KM :: fval
  Revenue_to_Cost_Ratio :: fval

definition Order_ID :: "merged_row \<Rightarrow> string" where
  "Order_ID m = o_Order_ID (j_order (base m))"

definition derive :: "joined \<Rightarrow> merged_row" where
  "derive j =
     (let delay = pd_sub (of_cell (num_col (j_delivery j) Actual_Delivery_Days))
                         (of_cell (Promised_Delivery_Days (j_order j)));
          total = pd_sum (map (\<lambda>c. of_cell (num_col (j_cost j) c)) cost_columns)
      in \<lparr>base = j,
          Rating = (case j_feedback j of None \<Rightarrow> NaN | Some a \<Rightarrow> fa_Rating a),
          Delivery_Delay_Days = delay,
          On_Time = fle delay (Fin 0),
          Delay_Severity = pd_cut delay delay_bins delay_labels,
          Total_Cost = total,
          Cost_per_KM =
            pd_div total (replace_0_nan (of_cell (num_col (j_route j) Distance_KM))),
          Revenue_to_Cost_Ratio =
            pd_div (of_cell (Order_Value_INR (j_order j))) (replace_0_nan total)\<rparr>)"

text \<open>The merging and derivation part of \<open>load_data\<close>.\<close>

definition load_merged ::
  "order_row list \<Rightarrow> delivery_row list \<Rightarrow> route_row list \<Rightarrow> cost_row list \<Rightarrow>
   feedback_row list \<Rightarrow> merged_row list" where
  "load_merged orders delivery routes costs feedback =
     (let m1 = merge_left o_Order_ID d_Order_ID orders delivery;
          m2 = merge_left (\<lambda>l. o_Order_ID (fst l)) r_Order_ID m1 routes;
          m3 = merge_left (\<lambda>l. o_Order_ID (fst (fst l))) c_Order_ID m2 costs;
          m4 = merge_left (\<lambda>l. o_Order_ID (fst (fst (fst l)))) fa_Order_ID m3
                 (feedback_agg feedback)
      in map derive m4)"

text \<open>
  \<open>on_time_rate = merged['On_Time'].mean() * 100\<close> in \<open>create_kpi_metrics\<close>; a boolean
  column has no nulls and averages as 1 and 0.
\<close>

definition bool_col :: "bool \<Rightarrow> fval" where
  "bool_col b = Fin (if b then 1 else 0)"

definition on_time_rate :: "merged_row list \<Rightarrow> fval" where
  "on_time_rate merged = pd_mul (pd_mean (map (\<lambda>m. bool_col (On_Time m)) merged)) (Fin 100)"

section \<open>Sample tables\<close>

text \<open>
  Four orders: \<open>O1\<close> delivered on the promised day over 100 km, with a cost row of zeros
  and two feedback rows; \<open>O2\<close> two days late with no route, cost or feedback; \<open>O3\<close>
  five days late over a distance of 0 km, with fuel 100 and labour 50, and one feedback
  row without rating or category; \<open>O4\<close> with no row in any other table.
\<close>

definition ex_order :: "string \<Rightarrow> rat option \<Rightarrow> rat option \<Rightarrow> order_row" where
  "ex_order k v p =
     \<lparr>o_Order_ID = k, Order_Date = ''2025-01-15'', Priority = ''Express'',
      Product_Category = ''Electronics'', Order_Value_INR = v, Promised_Delivery_Days = p\<rparr>"

definition ex_delivery :: "string \<Rightarrow> rat option \<Rightarrow> delivery_row" where
  "ex_delivery k a = \<lparr>d_Order_ID = k, Actual_Delivery_Days = a\<rparr>"

definition ex_route :: "string \<Rightarrow> rat option \<Rightarrow> route_row" where
  "ex_route k d =
     \<lparr>r_Order_ID = k, Route = ''Pune-Delhi'', Origin = ''Pune'', Destination = ''Delhi'',
      Distance_KM = d, Carrier = ''QuickShip''\<rparr>"

definition ex_cost :: "string \<Rightarrow> rat option \<Rightarrow> rat option \<Rightarrow> rat option \<Rightarrow> cost_row" where
  "ex_cost k fuel labor ins =
     \<lparr>c_Order_ID = k, Fuel_Cost = fuel, Labor_Cost = labor, Vehicle_Maintenance = Some 0,
      Insurance = ins, Packaging_Cost = Some 0, Technology_Platform_Fee = Some 0,
      Other_Overhead = Some 0\<rparr>"

definition ex_fb :: "string \<Rightarrow> rat option \<Rightarrow> string option \<Rightarrow> feedback_row" where
  "ex_fb k r c = \<lparr>f_Order_ID = k, f_Rating = r, f_Issue_Category = c\<rparr>"

definition ex_orders :: "order_row list" where
  "ex_orders = [ex_order ''O1'' (Some 1000) (Some 2), ex_order ''O2'' (Some 500) (Some 2),
                ex_order ''O3'' (Some 800) (Some 2), ex_order ''O4'' (Some 100) (Some 3)]"

definition ex_deliveries :: "delivery_row list" where
  "ex_deliveries = [ex_delivery ''O1'' (Some 2), ex_delivery ''O2'' (Some 4),
                    ex_delivery ''O3'' (Some 7)]"

definition ex_routes :: "route_row list" where
  "ex_routes = [ex_route ''O3'' (Some 0), ex_route ''O1'' (Some 100)]"

definition ex_costs :: "cost_row list" where
  "ex_costs = [ex_cost ''O3'' (Some 100) (Some 50) None, ex_cost ''O1'' (Some 0) (Some 0) (Some 0)]"

definition ex_feedback :: "feedback_row list" where
  "ex_feedback = [ex_fb ''O1'' (Some 5) (Some ''Late''), ex_fb ''O3'' None None,
                  ex_fb ''O1'' (Some 3) (Some ''Damaged'')]"

definition ex_j1 :: joined where
  "ex_j1 = ((((ex_order ''O1'' (Some 1000) (Some 2), Some (ex_delivery ''O1'' (Some 2))),
              Some (ex_route ''O1'' (Some 100))),
             Some (ex_cost ''O1'' (Some 0) (Some 0) (Some 0))),
            Some \<lparr>fa_Order_ID = ''O1'', fa_Rating = Fin 4, fa_Issue_Category = ''Damaged''\<rparr>)"

definition ex_j2 :: joined where
  "ex_j2 = ((((ex_order ''O2'' (Some 500) (Some 2), Some (ex_delivery ''O2'' (Some 4))),
              None), None), None)"

definition ex_j3 :: joined where
  "ex_j3 = ((((ex_order ''O3'' (Some 800) (Some 2), Some (ex_delivery ''O3'' (Some 7))),
              Some (ex_route ''O3'' (Some 0))),
             Some (ex_cost ''O3'' (Some 100) (Some 50) None)),
            Some \<lparr>fa_Order_ID = ''O3'', fa_Rating = NaN, fa_Issue_Category = ''None''\<rparr>)"

definition ex_j4 :: joined where
  "ex_j4 = ((((ex_order ''O4'' (Some 100) (Some 3), None), None), None), None)"

definition ex_warehouse_row :: "string \<Rightarrow> rat option \<Rightarrow> rat option \<Rightarrow> warehouse_row" where
  "ex_warehouse_row loc cur lvl =
     \<lparr>w_Product_Category = ''Electronics'', w_Location = loc, Current_Stock_Units = cur,
      Reorder_Level = lvl, Storage_Cost_per_Unit = Some 3, Last_Restocked_Date = ''2025-01-02''\<rparr>"

definition ex_stock :: "warehouse_derived list" where
  "ex_stock = prepare_warehouse
     [ex_warehouse_row ''Pune'' (Some 5) (Some 10), ex_warehouse_row ''Delhi'' (Some 20) (Some 10),
      ex_warehouse_row ''Mumbai'' (Some 1) (Some 10), ex_warehouse_row ''Chennai'' (Some 2) (Some 10),
      ex_warehouse_row ''Kolkata'' (Some 3) (Some 10), ex_warehouse_row ''Jaipur'' (Some 4) (Some 10)]"

section \<open>Evaluation of the sample tables\<close>

lemma ex_feedback_agg:
  "feedback_agg ex_feedback =
     [\<lparr>fa_Order_ID = ''O1'', fa_Rating = Fin 4, fa_Issue_Category = ''Damaged''\<rparr>,
      \<lparr>fa_Order_ID = ''O3'', fa_Rating = NaN, fa_Issue_Category = ''None''\<rparr>]"
  by (simp add: feedback_agg_def ex_feedback_def ex_fb_def feedback_group_def pd_mean_def
        pd_sum_def isna_def issue_category_agg_def pd_mode_def Let_def)

lemma ex_merged_rows:
  "load_merged ex_orders ex_deliveries ex_routes ex_costs ex_feedback =
     map derive [ex_j1, ex_j2, ex_j3, ex_j4]"
  by (simp add: load_merged_def Let_def ex_feedback_agg)
     (simp add: merge_left_def ex_orders_def ex_deliveries_def ex_routes_def ex_costs_def
        ex_order_def ex_delivery_def ex_route_def ex_cost_def ex_j1_def ex_j2_def ex_j3_def ex_j4_def)


section \<open>Delay severity and the two bucketings\<close>


lemma stock_cut_Fin:
  "stock_status_of (Fin r) =
     (if r \<le> 0 then None
      else if r \<le> 1 / 2 then Some ''Critical''
      else if r \<le> 4 / 5 then Some ''Low''
      else if r \<le> 6 / 5 then Some ''Normal''
      else Some ''Excess'')"
  by (simp add: stock_status_of_def pd_cut_def searchsorted_left_def stock_bins_def
        stock_labels_def isna_def)


lemma derive_delay:
  "Delivery_Delay_Days (derive j) =
     pd_sub (of_cell (num_col (j_delivery j) Actual_Delivery_Days))
            (of_cell (Promised_Delivery_Days (j_order j)))"
  by (simp add: derive_def Let_def)


lemma derive_on_time:
  "On_Time (derive j) = fle (Delivery_Delay_Days (derive j)) (Fin 0)"
  by (simp add: derive_def Let_def)


lemma in_set_map_image: "m \<in> set (map f xs) \<Longrightarrow> \<exists>j. m = f j"
  by auto

lemma load_merged_derive:
  "m \<in> set (load_merged orders delivery routes costs feedback) \<Longrightarrow> \<exists>j. m = derive j"
  unfolding load_merged_def Let_def by (rule in_set_map_image)

lemma ex_rows_mem:
  "derive ex_j1 \<in> set (load_merged ex_orders ex_deliveries ex_routes ex_costs ex_feedback)"
  "derive ex_j2 \<in> set (load_merged ex_orders ex_deliveries ex_routes ex_costs ex_feedback)"
  "derive ex_j3 \<in> set (load_merged ex_orders ex_deliveries ex_routes ex_costs ex_feedback)"
  "derive ex_j4 \<in> set (load_merged ex_orders ex_deliveries ex_routes ex_costs ex_feedback)"
  by (simp_all add: ex_merged_rows)

lemma ex_delays:
  "Delivery_Delay_Days (derive ex_j1) = Fin 0"
  "Delivery_Delay_Days (derive ex_j2) = Fin 2"
  "Delivery_Delay_Days (derive ex_j3) = Fin 5"
  "Delivery_Delay_Days (derive ex_j4) = NaN"
  by (simp_all add: derive_delay pd_sub_def num_col_def j_delivery_def j_order_def
        ex_j1_def ex_j2_def ex_j3_def ex_j4_def ex_order_def ex_delivery_def)



section \<open>Stock status\<close>

lemma prepare_ratio:
  "Stock_Ratio (prepare_warehouse_row w) =
     pd_div (of_cell (Current_Stock_Units w)) (of_cell (Reorder_Level w))"
  by (simp add: prepare_warehouse_row_def Let_def warehouse_row.defs)

lemma prepare_status:
  "Stock_Status (prepare_warehouse_row w) = stock_status_of (Stock_Ratio (prepare_warehouse_row w))"
  by (simp add: prepare_warehouse_row_def Let_def warehouse_row.defs)

lemma prepare_keeps:
  "w_Product_Category (prepare_warehouse_row w) = w_Product_Category w"
  "w_Location (prepare_warehouse_row w) = w_Location w"
  "Current_Stock_Units (prepare_warehouse_row w) = Current_Stock_Units w"
  "Reorder_Level (prepare_warehouse_row w) = Reorder_Level w"
  by (simp_all add: prepare_warehouse_row_def Let_def warehouse_row.defs)

lemma ex_ratio:
  "Stock_Ratio (prepare_warehouse_row (ex_warehouse_row loc (Some a) (Some b))) =
     pd_div (Fin a) (Fin b)"
  by (simp add: prepare_ratio ex_warehouse_row_def)

text \<open>
  C3 as stated fails: a stock of 5 against a reorder level of 10 (ratio exactly 0.5) is
  classified "Critical", not "Low"; 8 against 10 (ratio 0.8) is "Low", not "Normal";
  12 against 10 (ratio 1.2) is "Normal", not "Excess".
\<close>

theorem stock_status_boundaries_counterexample:
  "Stock_Ratio (prepare_warehouse_row (ex_warehouse_row ''Pune'' (Some 5) (Some 10))) = Fin (1 / 2)
   \<and> Stock_Status (prepare_warehouse_row (ex_warehouse_row ''Pune'' (Some 5) (Some 10))) \<noteq> Some ''Low''
   \<and> Stock_Ratio (prepare_warehouse_row (ex_warehouse_row ''Pune'' (Some 8) (Some 10))) = Fin (4 / 5)
   \<and> Stock_Status (prepare_warehouse_row (ex_warehouse_row ''Pune'' (Some 8) (Some 10))) \<noteq> Some ''Normal''
   \<and> Stock_Ratio (prepare_warehouse_row (ex_warehouse_row ''Pune'' (Some 12) (Some 10))) = Fin (6 / 5)
   \<and> Stock_Status (prepare_warehouse_row (ex_warehouse_row ''Pune'' (Some 12) (Some 10))) \<noteq> Some ''Excess''"
  by (simp add: prepare_status ex_ratio stock_cut_Fin)

text \<open>
  C3, amended. For every warehouse record, a Stock_Ratio of exactly 0.5 is classified
  "Critical", exactly 0.8 "Low" and exactly 1.2 "Normal": each boundary value belongs to
  the lower bucket.
\<close>

theorem stock_status_boundaries:
  "(Stock_Ratio (prepare_warehouse_row w) = Fin (1 / 2) \<longrightarrow>
      Stock_Status (prepare_warehouse_row w) = Some ''Critical'')
   \<and> (Stock_Ratio (prepare_warehouse_row w) = Fin (4 / 5) \<longrightarrow>
      Stock_Status (prepare_warehouse_row w) = Some ''Low'')
   \<and> (Stock_Ratio (prepare_warehouse_row w) = Fin (6 / 5) \<longrightarrow>
      Stock_Status (prepare_warehouse_row w) = Some ''Normal'')"
  by (simp add: prepare_status stock_cut_Fin)

theorem stock_status_boundaries_witness:
  "Stock_Ratio (prepare_warehouse_row (ex_warehouse_row ''Pune'' (Some 5) (Some 10))) = Fin (1 / 2)
   \<and> Stock_Status (prepare_warehouse_row (ex_warehouse_row ''Pune'' (Some 5) (Some 10))) = Some ''Critical''
   \<and> Stock_Ratio (prepare_warehouse_row (ex_warehouse_row ''Pune'' (Some 8) (Some 10))) = Fin (4 / 5)
   \<and> Stock_Status (prepare_warehouse_row (ex_warehouse_row ''Pune'' (Some 8) (Some 10))) = Some ''Low''
   \<and> Stock_Ratio (prepare_warehouse_row (ex_warehouse_row ''Pune'' (Some 12) (Some 10))) = Fin (6 / 5)
   \<and> Stock_Status (prepare_warehouse_row (ex_warehouse_row ''Pune'' (Some 12) (Some 10))) = Some ''Normal''"
  using stock_status_boundaries [of "ex_warehouse_row ''Pune'' (Some 5) (Some 10)"]
        stock_status_boundaries [of "ex_warehouse_row ''Pune'' (Some 8) (Some 10)"]
        stock_status_boundaries [of "ex_warehouse_row ''Pune'' (Some 12) (Some 10)"]
  by (simp add: ex_ratio)

section \<open>The cap on critical-stock alerts\<close>

lemma alerts_eq:
  "show_alerts_critical_stock warehouse = map critical_alert_of (take 3 (critical_stock warehouse))"
  by (simp add: show_alerts_critical_stock_def Let_def)

text \<open>
  C8. With n records of status "Critical" in the warehouse table, exactly min n 3
  critical-stock alerts are emitted, for the first min n 3 such records in input order.
\<close>

theorem critical_stock_alerts_capped:
  "show_alerts_critical_stock warehouse =
     map critical_alert_of
       (take (min (length (filter (\<lambda>w. Stock_Status w = Some ''Critical'') warehouse)) 3)
             (filter (\<lambda>w. Stock_Status w = Some ''Critical'') warehouse))
   \<and> length (show_alerts_critical_stock warehouse) =
       min (length (filter (\<lambda>w. Stock_Status w = Some ''Critical'') warehouse)) 3"
  by (simp add: alerts_eq critical_stock_def min_def)

lemma ex_stock_critical:
  "filter (\<lambda>w. Stock_Status w = Some ''Critical'') ex_stock =
     map prepare_warehouse_row
       [ex_warehouse_row ''Pune'' (Some 5) (Some 10), ex_warehouse_row ''Mumbai'' (Some 1) (Some 10),
        ex_warehouse_row ''Chennai'' (Some 2) (Some 10), ex_warehouse_row ''Kolkata'' (Some 3) (Some 10),
        ex_warehouse_row ''Jaipur'' (Some 4) (Some 10)]"
  by (simp add: ex_stock_def prepare_warehouse_def prepare_status ex_ratio stock_cut_Fin)

theorem critical_stock_alerts_capped_witness:
  "length (filter (\<lambda>w. Stock_Status w = Some ''Critical'') ex_stock) = 5
   \<and> show_alerts_critical_stock ex_stock =
       [Critical_Stock_Alert ''Electronics'' ''Pune'' (Some 5) (Some 10),
        Critical_Stock_Alert ''Electronics'' ''Mumbai'' (Some 1) (Some 10),
        Critical_Stock_Alert ''Electronics'' ''Chennai'' (Some 2) (Some 10)]"
  using critical_stock_alerts_capped [of ex_stock]
  by (simp add: ex_stock_critical critical_alert_of_def prepare_keeps ex_warehouse_row_def)

text \<open>
  C9. A warehouse record with no stock and a positive reorder level has Stock_Ratio 0;
  its Stock_Status is null, not "Critical", and no critical-stock alert is emitted for it,
  whatever the warehouse table.
\<close>

theorem zero_stock_not_critical:
  assumes "Current_Stock_Units w = Some 0" and "Reorder_Level w = Some r" and "0 < r"
  shows "Stock_Ratio (prepare_warehouse_row w) = Fin 0
       \<and> Stock_Status (prepare_warehouse_row w) = None
       \<and> prepare_warehouse_row w \<notin> set (critical_stock (prepare_warehouse ws))
       \<and> critical_alert_of (prepare_warehouse_row w)
            \<notin> set (show_alerts_critical_stock (prepare_warehouse ws))"
proof -
  have ratio: "Stock_Ratio (prepare_warehouse_row w) = Fin 0"
    using assms by (simp add: prepare_ratio)
  have status: "Stock_Status (prepare_warehouse_row w) = None"
    by (simp add: prepare_status ratio stock_cut_Fin)
  have no_row: "prepare_warehouse_row w \<notin> set (critical_stock (prepare_warehouse ws))"
    by (simp add: critical_stock_def status)
  have "critical_alert_of (prepare_warehouse_row w) \<noteq> critical_alert_of c"
    if "c \<in> set (critical_stock (prepare_warehouse ws))" for c
  proof
    assume eq: "critical_alert_of (prepare_warehouse_row w) = critical_alert_of c"
    from that obtain v where c: "c = prepare_warehouse_row v"
      and crit: "Stock_Status c = Some ''Critical''"
      by (auto simp: critical_stock_def prepare_warehouse_def)
    from eq have "Current_Stock_Units v = Some 0" "Reorder_Level v = Some r"
      using assms by (simp_all add: critical_alert_of_def c prepare_keeps)
    then have "Stock_Status (prepare_warehouse_row v) = None"
      using assms(3) by (simp add: prepare_status prepare_ratio stock_cut_Fin)
    with crit c show False by simp
  qed
  then have "critical_alert_of (prepare_warehouse_row w)
      \<notin> set (map critical_alert_of (take 3 (critical_stock (prepare_warehouse ws))))"
    by (auto dest: in_set_takeD)
  with ratio status no_row show ?thesis
    by (simp add: alerts_eq)
qed

theorem zero_stock_not_critical_witness:
  "Current_Stock_Units (ex_warehouse_row ''Pune'' (Some 0) (Some 10)) = Some 0
   \<and> Reorder_Level (ex_warehouse_row ''Pune'' (Some 0) (Some 10)) = Some 10
   \<and> (0::rat) < 10
   \<and> Stock_Status (prepare_warehouse_row (ex_warehouse_row ''Pune'' (Some 0) (Some 10))) = None
   \<and> show_alerts_critical_stock (prepare_warehouse [ex_warehouse_row ''Pune'' (Some 0) (Some 10)]) = []"
proof -
  have c: "Current_Stock_Units (ex_warehouse_row ''Pune'' (Some 0) (Some 10)) = Some 0"
    and r: "Reorder_Level (ex_warehouse_row ''Pune'' (Some 0) (Some 10)) = Some 10"
    by (simp_all add: ex_warehouse_row_def)
  have p: "(0::rat) < 10" by simp
  from zero_stock_not_critical [OF c r p, of "[ex_warehouse_row ''Pune'' (Some 0) (Some 10)]"]
  show ?thesis
    using c r by (simp add: alerts_eq critical_stock_def prepare_warehouse_def)
qed

section \<open>Vehicle efficiency\<close>

text \<open>
  C6 fails on the code: a vehicle with fuel efficiency 12 and CO2 emissions of exactly 0
  gets an Efficiency_Score of positive infinity, not null.
\<close>

theorem efficiency_score_zero_emissions:
  "Efficiency_Score (prepare_vehicle_row
      \<lparr>Vehicle_Type = ''Van'', Fuel_Efficiency_KM_per_L = Some 12,
       CO2_Emissions_Kg_per_KM = Some 0\<rparr>) = PInf
   \<and> \<not> isna (Efficiency_Score (prepare_vehicle_row
      \<lparr>Vehicle_Type = ''Van'', Fuel_Efficiency_KM_per_L = Some 12,
       CO2_Emissions_Kg_per_KM = Some 0\<rparr>))"
  by (simp add: prepare_vehicle_row_def vehicle_row.defs isna_def)

lemma efficiency_score_nonzero:
  "c \<noteq> 0 \<Longrightarrow>
   Efficiency_Score (prepare_vehicle_row
      \<lparr>Vehicle_Type = t, Fuel_Efficiency_KM_per_L = Some f,
       CO2_Emissions_Kg_per_KM = Some c\<rparr>) = Fin (f / c)"
  by (simp add: prepare_vehicle_row_def vehicle_row.defs)

section \<open>Sums and means of columns\<close>

lemma fold_add_Fin:
  "fold (\<lambda>x acc. pd_add acc x) (map Fin xs) (Fin a) = Fin (a + sum_list xs)"
  by (induction xs arbitrary: a) (simp_all add: add.assoc)

lemma notna_of_cell: "filter (\<lambda>x. \<not> isna x) (map of_cell cs) = map Fin (dropna cs)"
  by (induction cs rule: dropna.induct) (simp_all add: isna_def)

lemma sum_dropna: "sum_list (dropna cs) = sum_list (map null_as_0 cs)"
  by (induction cs rule: dropna.induct) (simp_all add: null_as_0_def)

lemma pd_sum_of_cell: "pd_sum (map of_cell cs) = Fin (sum_list (map null_as_0 cs))"
  by (simp add: pd_sum_def notna_of_cell fold_add_Fin sum_dropna)

lemma notna_Fin: "filter (\<lambda>x. \<not> isna x) (map Fin xs) = map Fin xs"
  by (induction xs) (simp_all add: isna_def)

lemma pd_sum_Fin: "pd_sum (map Fin xs) = Fin (sum_list xs)"
  by (simp add: pd_sum_def notna_Fin fold_add_Fin)

lemma pd_mean_Fin:
  "pd_mean (map Fin xs) = (if xs = [] then NaN else Fin (sum_list xs / of_nat (length xs)))"
  by (simp add: pd_mean_def pd_sum_Fin notna_Fin Let_def)

lemma pd_mean_notna: "pd_mean xs = pd_mean (filter (\<lambda>x. \<not> isna x) xs)"
  by (simp add: pd_mean_def pd_sum_def Let_def)

lemma notna_map_filter:
  "(\<And>x. x \<in> set xs \<Longrightarrow> \<not> keep x \<Longrightarrow> isna (f x)) \<Longrightarrow>
   filter (\<lambda>x. \<not> isna x) (map f (filter keep xs)) = filter (\<lambda>x. \<not> isna x) (map f xs)"
  by (induction xs) auto

lemma pd_mean_skips:
  assumes "\<And>x. x \<in> set xs \<Longrightarrow> \<not> keep x \<Longrightarrow> isna (f x)"
  shows "pd_mean (map f (filter keep xs)) = pd_mean (map f xs)"
proof -
  have "pd_mean (map f (filter keep xs)) =
          pd_mean (filter (\<lambda>x. \<not> isna x) (map f (filter keep xs)))"
    by (rule pd_mean_notna)
  also have "\<dots> = pd_mean (filter (\<lambda>x. \<not> isna x) (map f xs))"
    using assms by (simp add: notna_map_filter)
  also have "\<dots> = pd_mean (map f xs)"
    by (rule pd_mean_notna [symmetric])
  finally show ?thesis .
qed

section \<open>Total cost\<close>

lemma base_derive: "base (derive j) = j"
  by (simp add: derive_def Let_def)

lemma derive_total:
  "Total_Cost (derive j) = Fin (sum_list (map (\<lambda>c. null_as_0 (num_col (j_cost j) c)) cost_columns))"
proof -
  have "Total_Cost (derive j) = pd_sum (map of_cell (map (num_col (j_cost j)) cost_columns))"
    by (simp add: derive_def Let_def comp_def)
  also have "\<dots> = Fin (sum_list (map null_as_0 (map (num_col (j_cost j)) cost_columns)))"
    by (rule pd_sum_of_cell)
  finally show ?thesis
    by (simp add: comp_def)
qed




section \<open>Division by a zero denominator\<close>

lemma derive_cost_per_km:
  "Cost_per_KM (derive j) =
     pd_div (Total_Cost (derive j)) (replace_0_nan (of_cell (num_col (j_route j) Distance_KM)))"
  by (simp add: derive_def Let_def)

lemma derive_ratio:
  "Revenue_to_Cost_Ratio (derive j) =
     pd_div (of_cell (Order_Value_INR (j_order j))) (replace_0_nan (Total_Cost (derive j)))"
  by (simp add: derive_def Let_def)

lemma pd_div_NaN_right: "pd_div x NaN = NaN"
  by (cases x) simp_all

lemma div_guarded_finite:
  "pd_div (Fin a) (replace_0_nan (of_cell d)) \<noteq> PInf
   \<and> pd_div (Fin a) (replace_0_nan (of_cell d)) \<noteq> NInf"
  by (cases d) (simp_all add: replace_0_nan_def)

lemma div_guarded_finite':
  "pd_div (of_cell v) (replace_0_nan (Fin t)) \<noteq> PInf
   \<and> pd_div (of_cell v) (replace_0_nan (Fin t)) \<noteq> NInf"
  by (cases v) (simp_all add: replace_0_nan_def)

lemma cost_per_km_facts:
  "(num_col (j_route j) Distance_KM = Some 0 \<longrightarrow> isna (Cost_per_KM (derive j)))
   \<and> Cost_per_KM (derive j) \<noteq> PInf \<and> Cost_per_KM (derive j) \<noteq> NInf"
proof -
  obtain t where t: "Total_Cost (derive j) = Fin t"
    using derive_total by blast
  show ?thesis
    using div_guarded_finite [of t "num_col (j_route j) Distance_KM"]
    by (auto simp: derive_cost_per_km t replace_0_nan_def isna_def)
qed

lemma ratio_facts:
  "(Total_Cost (derive j) = Fin 0 \<longrightarrow> isna (Revenue_to_Cost_Ratio (derive j)))
   \<and> Revenue_to_Cost_Ratio (derive j) \<noteq> PInf \<and> Revenue_to_Cost_Ratio (derive j) \<noteq> NInf"
proof -
  obtain t where t: "Total_Cost (derive j) = Fin t"
    using derive_total by blast
  show ?thesis
    using div_guarded_finite' [of "Order_Value_INR (j_order j)" t]
    by (auto simp: derive_ratio t replace_0_nan_def isna_def pd_div_NaN_right)
qed

text \<open>
  C5. For every row of the merged table, a Distance_KM of exactly 0 gives a null
  Cost_per_KM and a Total_Cost of exactly 0 gives a null Revenue_to_Cost_Ratio; neither
  column ever holds an infinity; and the mean of either column is the mean over the rows
  left once those rows are removed.
\<close>

theorem zero_denominator_null:
  assumes "m \<in> set (load_merged orders delivery routes costs feedback)"
  shows "(num_col (j_route (base m)) Distance_KM = Some 0 \<longrightarrow> isna (Cost_per_KM m))
       \<and> (Total_Cost m = Fin 0 \<longrightarrow> isna (Revenue_to_Cost_Ratio m))
       \<and> Cost_per_KM m \<noteq> PInf \<and> Cost_per_KM m \<noteq> NInf
       \<and> Revenue_to_Cost_Ratio m \<noteq> PInf \<and> Revenue_to_Cost_Ratio m \<noteq> NInf
       \<and> pd_mean (map Cost_per_KM (load_merged orders delivery routes costs feedback)) =
           pd_mean (map Cost_per_KM
             (filter (\<lambda>x. num_col (j_route (base x)) Distance_KM \<noteq> Some 0)
                (load_merged orders delivery routes costs feedback)))
       \<and> pd_mean (map Revenue_to_Cost_Ratio (load_merged orders delivery routes costs feedback)) =
           pd_mean (map Revenue_to_Cost_Ratio
             (filter (\<lambda>x. Total_Cost x \<noteq> Fin 0)
                (load_merged orders delivery routes costs feedback)))"
proof -
  have row: "(num_col (j_route (base x)) Distance_KM = Some 0 \<longrightarrow> isna (Cost_per_KM x))
       \<and> (Total_Cost x = Fin 0 \<longrightarrow> isna (Revenue_to_Cost_Ratio x))
       \<and> Cost_per_KM x \<noteq> PInf \<and> Cost_per_KM x \<noteq> NInf
       \<and> Revenue_to_Cost_Ratio x \<noteq> PInf \<and> Revenue_to_Cost_Ratio x \<noteq> NInf"
    if "x \<in> set (load_merged orders delivery routes costs feedback)" for x
  proof -
    from that obtain j where x: "x = derive j"
      using load_merged_derive by blast
    show ?thesis
      unfolding x base_derive using cost_per_km_facts [of j] ratio_facts [of j] by blast
  qed
  have mean1: "pd_mean (map Cost_per_KM
             (filter (\<lambda>x. num_col (j_route (base x)) Distance_KM \<noteq> Some 0)
                (load_merged orders delivery routes costs feedback))) =
        pd_mean (map Cost_per_KM (load_merged orders delivery routes costs feedback))"
    by (rule pd_mean_skips) (use row in blast)
  have mean2: "pd_mean (map Revenue_to_Cost_Ratio
             (filter (\<lambda>x. Total_Cost x \<noteq> Fin 0)
                (load_merged orders delivery routes costs feedback))) =
        pd_mean (map Revenue_to_Cost_Ratio (load_merged orders delivery routes costs feedback))"
    by (rule pd_mean_skips) (use row in blast)
  from row [OF assms] mean1 mean2 show ?thesis
    by simp
qed

lemma ex_j_cols:
  "num_col (j_route ex_j3) Distance_KM = Some 0"
  "Total_Cost (derive ex_j3) = Fin 150"
  "Total_Cost (derive ex_j1) = Fin 0"
  "Order_Value_INR (j_order ex_j1) = Some 1000"
  by (simp_all add: derive_total cost_columns_def num_col_def null_as_0_def j_route_def
        j_cost_def j_order_def ex_j1_def ex_j3_def ex_route_def ex_cost_def ex_order_def)

theorem zero_denominator_null_witness:
  "derive ex_j3 \<in> set (load_merged ex_orders ex_deliveries ex_routes ex_costs ex_feedback)
   \<and> num_col (j_route (base (derive ex_j3))) Distance_KM = Some 0
   \<and> Total_Cost (derive ex_j3) = Fin 150
   \<and> isna (Cost_per_KM (derive ex_j3))
   \<and> derive ex_j1 \<in> set (load_merged ex_orders ex_deliveries ex_routes ex_costs ex_feedback)
   \<and> Total_Cost (derive ex_j1) = Fin 0
   \<and> isna (Revenue_to_Cost_Ratio (derive ex_j1))"
  using zero_denominator_null [OF ex_rows_mem(3)] zero_denominator_null [OF ex_rows_mem(1)]
        ex_rows_mem ex_j_cols
  by (simp add: base_derive)

section \<open>Orders without a delivery row\<close>

lemma bool_sum:
  "sum_list (map (\<lambda>b. if b then 1 else 0) bs) = (of_nat (length (filter (\<lambda>b. b) bs)) :: rat)"
  by (induction bs) simp_all

lemma on_time_rate_eq:
  "merged \<noteq> [] \<Longrightarrow>
   on_time_rate merged =
     Fin (of_nat (length (filter On_Time merged)) / of_nat (length merged) * 100)"
proof -
  assume ne: "merged \<noteq> []"
  have "map (\<lambda>m. bool_col (On_Time m)) merged =
          map Fin (map (\<lambda>b. if b then 1 else 0) (map On_Time merged))"
    by (simp add: bool_col_def comp_def)
  then have "pd_mean (map (\<lambda>m. bool_col (On_Time m)) merged) =
          Fin (sum_list (map (\<lambda>b. if b then 1 else 0) (map On_Time merged)) / of_nat (length merged))"
    using ne by (simp only: pd_mean_Fin) simp
  also have "sum_list (map (\<lambda>b. if b then 1 else 0) (map On_Time merged)) =
          (of_nat (length (filter On_Time merged)) :: rat)"
    by (simp only: bool_sum) (simp add: filter_map comp_def)
  finally show ?thesis
    by (simp add: on_time_rate_def)
qed

text \<open>
  C10. A row of the merged table whose Actual_Delivery_Days is null has a null
  Delivery_Delay_Days and On_Time False (a boolean, not null); the on-time rate divides
  the number of on-time rows by the number of all rows, so such a row counts as not on
  time instead of being left out.
\<close>

theorem no_delivery_not_on_time:
  assumes "m \<in> set (load_merged orders delivery routes costs feedback)"
    and "num_col (j_delivery (base m)) Actual_Delivery_Days = None"
  shows "isna (Delivery_Delay_Days m) \<and> On_Time m = False
       \<and> m \<notin> set (filter On_Time (load_merged orders delivery routes costs feedback))
       \<and> on_time_rate (load_merged orders delivery routes costs feedback) =
           Fin (of_nat (length (filter On_Time (load_merged orders delivery routes costs feedback)))
                / of_nat (length (load_merged orders delivery routes costs feedback)) * 100)"
proof -
  from assms(1) obtain j where m: "m = derive j"
    using load_merged_derive by blast
  from assms(2) have a: "num_col (j_delivery j) Actual_Delivery_Days = None"
    by (simp add: m base_derive)
  have d: "Delivery_Delay_Days m = NaN"
    by (simp add: m derive_delay a pd_sub_def)
  have o: "\<not> On_Time m"
    using d by (simp add: m derive_on_time)
  from assms(1) have "load_merged orders delivery routes costs feedback \<noteq> []"
    by auto
  then show ?thesis
    using d o by (simp add: on_time_rate_eq isna_def)
qed

lemma ex_on_time:
  "map On_Time (load_merged ex_orders ex_deliveries ex_routes ex_costs ex_feedback) =
     [True, False, False, False]"
  by (simp add: ex_merged_rows derive_on_time ex_delays)

theorem no_delivery_not_on_time_witness:
  "derive ex_j4 \<in> set (load_merged ex_orders ex_deliveries ex_routes ex_costs ex_feedback)
   \<and> num_col (j_delivery (base (derive ex_j4))) Actual_Delivery_Days = None
   \<and> On_Time (derive ex_j4) = False
   \<and> on_time_rate (load_merged ex_orders ex_deliveries ex_routes ex_costs ex_feedback) = Fin 25"
proof -
  have a: "num_col (j_delivery (base (derive ex_j4))) Actual_Delivery_Days = None"
    by (simp add: base_derive num_col_def j_delivery_def ex_j4_def)
  have n: "length (filter On_Time (load_merged ex_orders ex_deliveries ex_routes ex_costs ex_feedback)) = 1"
    using ex_on_time by (simp add: ex_merged_rows)
  have l: "length (load_merged ex_orders ex_deliveries ex_routes ex_costs ex_feedback) = 4"
    by (simp add: ex_merged_rows)
  from no_delivery_not_on_time [OF ex_rows_mem(4) a] show ?thesis
    using ex_rows_mem(4) a by (simp add: n l)
qed

section \<open>Cardinality of the merge\<close>

lemma filter_key_le1:
  "distinct (map kr right) \<Longrightarrow> length (filter (\<lambda>r. kr r = k) right) \<le> 1"
proof (induction right)
  case Nil
  then show ?case by simp
next
  case (Cons r right)
  show ?case
  proof (cases "kr r = k")
    case True
    with Cons.prems have "filter (\<lambda>r. kr r = k) right = []"
      by (fastforce simp: filter_empty_conv image_iff)
    with True show ?thesis by simp
  next
    case False
    with Cons show ?thesis by simp
  qed
qed

lemma merge_left_Cons:
  "merge_left kl kr (l # left) right =
     (case filter (\<lambda>r. kr r = kl l) right of
        [] \<Rightarrow> [(l, None)]
      | ms \<Rightarrow> map (\<lambda>r. (l, Some r)) ms) @ merge_left kl kr left right"
  by (simp add: merge_left_def)

lemma merge_left_fst:
  assumes "distinct (map kr right)"
  shows "map fst (merge_left kl kr left right) = left"
proof (induction left)
  case Nil
  show ?case by (simp add: merge_left_def)
next
  case (Cons l left)
  have "length (filter (\<lambda>r. kr r = kl l) right) \<le> 1"
    using assms by (rule filter_key_le1)
  then have "map fst (case filter (\<lambda>r. kr r = kl l) right of
        [] \<Rightarrow> [(l, None)]
      | ms \<Rightarrow> map (\<lambda>r. (l, Some r)) ms) = [l]"
    by (cases "filter (\<lambda>r. kr r = kl l) right") (simp_all add: comp_def)
  with Cons show ?case
    by (simp add: merge_left_Cons)
qed

lemma merge_left_fst_set: "fst ` set (merge_left kl kr left right) = set left"
proof (induction left)
  case Nil
  show ?case by (simp add: merge_left_def)
next
  case (Cons l left)
  have "fst ` set (case filter (\<lambda>r. kr r = kl l) right of
        [] \<Rightarrow> [(l, None)]
      | ms \<Rightarrow> map (\<lambda>r. (l, Some r)) ms) = {l}"
    by (cases "filter (\<lambda>r. kr r = kl l) right") (auto simp: image_iff)
  with Cons show ?case
    by (simp add: merge_left_Cons image_Un)
qed

lemma feedback_agg_keys:
  "map fa_Order_ID (feedback_agg feedback) = sort (remdups (map f_Order_ID feedback))"
  by (simp add: feedback_agg_def comp_def)

lemma feedback_agg_distinct: "distinct (map fa_Order_ID (feedback_agg feedback))"
  by (simp add: feedback_agg_keys)

lemma Order_ID_derive: "Order_ID (derive j) = o_Order_ID (fst (fst (fst (fst j))))"
  by (simp add: Order_ID_def base_derive j_order_def)

lemma merge_left_map_fst:
  assumes "distinct (map kr right)"
  shows "map (\<lambda>j. f (fst j)) (merge_left kl kr left right) = map f left"
proof -
  have "map (\<lambda>j. f (fst j)) (merge_left kl kr left right) =
          map f (map fst (merge_left kl kr left right))"
    by (simp add: comp_def)
  with assms show ?thesis
    by (simp only: merge_left_fst)
qed

lemma merge_left_image_fst:
  "(\<lambda>j. f (fst j)) ` set (merge_left kl kr left right) = f ` set left"
proof -
  have "(\<lambda>j. f (fst j)) ` set (merge_left kl kr left right) =
          f ` (fst ` set (merge_left kl kr left right))"
    by (simp add: image_image)
  then show ?thesis
    by (simp only: merge_left_fst_set)
qed

lemma load_merged_ids:
  "map Order_ID (load_merged orders delivery routes costs feedback) =
     map (\<lambda>j. o_Order_ID (fst (fst (fst (fst j)))))
       (merge_left (\<lambda>l. o_Order_ID (fst (fst (fst l)))) fa_Order_ID
          (merge_left (\<lambda>l. o_Order_ID (fst (fst l))) c_Order_ID
             (merge_left (\<lambda>l. o_Order_ID (fst l)) r_Order_ID
                (merge_left o_Order_ID d_Order_ID orders delivery) routes) costs)
          (feedback_agg feedback))"
  by (simp add: load_merged_def Let_def Order_ID_derive comp_def)

lemma load_merged_ids_set:
  "set (map Order_ID (load_merged orders delivery routes costs feedback)) =
     set (map o_Order_ID orders)"
proof -
  let ?m1 = "merge_left o_Order_ID d_Order_ID orders delivery"
  let ?m2 = "merge_left (\<lambda>l. o_Order_ID (fst l)) r_Order_ID ?m1 routes"
  let ?m3 = "merge_left (\<lambda>l. o_Order_ID (fst (fst l))) c_Order_ID ?m2 costs"
  let ?m4 = "merge_left (\<lambda>l. o_Order_ID (fst (fst (fst l)))) fa_Order_ID ?m3 (feedback_agg feedback)"
  have "set (map Order_ID (load_merged orders delivery routes costs feedback)) =
          (\<lambda>j. o_Order_ID (fst (fst (fst (fst j))))) ` set ?m4"
    by (simp only: load_merged_ids set_map)
  also have "\<dots> = (\<lambda>j. o_Order_ID (fst (fst (fst j)))) ` set ?m3"
    by (rule merge_left_image_fst [of "\<lambda>j. o_Order_ID (fst (fst (fst j)))"])
  also have "\<dots> = (\<lambda>j. o_Order_ID (fst (fst j))) ` set ?m2"
    by (rule merge_left_image_fst [of "\<lambda>j. o_Order_ID (fst (fst j))"])
  also have "\<dots> = (\<lambda>j. o_Order_ID (fst j)) ` set ?m1"
    by (rule merge_left_image_fst [of "\<lambda>j. o_Order_ID (fst j)"])
  also have "\<dots> = o_Order_ID ` set orders"
    by (rule merge_left_image_fst [of o_Order_ID])
  finally show ?thesis
    by simp
qed

lemma load_merged_ids_list:
  assumes "distinct (map d_Order_ID delivery)" and "distinct (map r_Order_ID routes)"
    and "distinct (map c_Order_ID costs)"
  shows "map Order_ID (load_merged orders delivery routes costs feedback) = map o_Order_ID orders"
proof -
  let ?m1 = "merge_left o_Order_ID d_Order_ID orders delivery"
  let ?m2 = "merge_left (\<lambda>l. o_Order_ID (fst l)) r_Order_ID ?m1 routes"
  let ?m3 = "merge_left (\<lambda>l. o_Order_ID (fst (fst l))) c_Order_ID ?m2 costs"
  let ?m4 = "merge_left (\<lambda>l. o_Order_ID (fst (fst (fst l)))) fa_Order_ID ?m3 (feedback_agg feedback)"
  have "map Order_ID (load_merged orders delivery routes costs feedback) =
          map (\<lambda>j. o_Order_ID (fst (fst (fst (fst j))))) ?m4"
    by (rule load_merged_ids)
  also have "\<dots> = map (\<lambda>j. o_Order_ID (fst (fst (fst j)))) ?m3"
    by (rule merge_left_map_fst [of fa_Order_ID _ "\<lambda>j. o_Order_ID (fst (fst (fst j)))"])
       (rule feedback_agg_distinct)
  also have "\<dots> = map (\<lambda>j. o_Order_ID (fst (fst j))) ?m2"
    by (rule merge_left_map_fst [of c_Order_ID _ "\<lambda>j. o_Order_ID (fst (fst j))"]) (rule assms(3))
  also have "\<dots> = map (\<lambda>j. o_Order_ID (fst j)) ?m1"
    by (rule merge_left_map_fst [of r_Order_ID _ "\<lambda>j. o_Order_ID (fst j)"]) (rule assms(2))
  also have "\<dots> = map o_Order_ID orders"
    by (rule merge_left_map_fst [of d_Order_ID _ o_Order_ID]) (rule assms(1))
  finally show ?thesis .
qed

text \<open>
  C1 as stated fails: with one order \<open>O1\<close> and two delivery rows for \<open>O1\<close>, the merged
  table has two rows with Order_ID \<open>O1\<close>.
\<close>

theorem merge_cardinality_counterexample:
  "distinct (map o_Order_ID [ex_order ''O1'' (Some 1000) (Some 2)])
   \<and> map Order_ID (load_merged [ex_order ''O1'' (Some 1000) (Some 2)]
        [ex_delivery ''O1'' (Some 2), ex_delivery ''O1'' (Some 4)] [] [] []) = [''O1'', ''O1'']
   \<and> \<not> distinct (map Order_ID (load_merged [ex_order ''O1'' (Some 1000) (Some 2)]
        [ex_delivery ''O1'' (Some 2), ex_delivery ''O1'' (Some 4)] [] [] []))"
proof -
  have "map Order_ID (load_merged [ex_order ''O1'' (Some 1000) (Some 2)]
        [ex_delivery ''O1'' (Some 2), ex_delivery ''O1'' (Some 4)] [] [] []) = [''O1'', ''O1'']"
    by (simp add: load_merged_ids feedback_agg_def)
       (simp add: merge_left_def ex_order_def ex_delivery_def)
  then show ?thesis
    by (simp add: ex_order_def)
qed

text \<open>
  C1, amended. The merged table never drops an order: its set of Order_IDs is that of
  the Orders input, for every combination of right-side tables. When delivery, routes and
  costs each hold at most one row per Order_ID, the merged table has exactly one row per
  Orders row, in the same order, whatever the feedback table; its Order_IDs are then
  unique when those of Orders are.
\<close>

theorem merge_cardinality:
  "set (map Order_ID (load_merged orders delivery routes costs feedback)) =
     set (map o_Order_ID orders)
   \<and> (distinct (map d_Order_ID delivery) \<and> distinct (map r_Order_ID routes)
        \<and> distinct (map c_Order_ID costs) \<longrightarrow>
      map Order_ID (load_merged orders delivery routes costs feedback) = map o_Order_ID orders
      \<and> (distinct (map o_Order_ID orders) \<longrightarrow>
           distinct (map Order_ID (load_merged orders delivery routes costs feedback))))"
proof -
  have "map Order_ID (load_merged orders delivery routes costs feedback) = map o_Order_ID orders"
    if "distinct (map d_Order_ID delivery)" "distinct (map r_Order_ID routes)"
       "distinct (map c_Order_ID costs)"
    using that by (rule load_merged_ids_list)
  then show ?thesis
    using load_merged_ids_set [of orders delivery routes costs feedback] by simp
qed

lemma ex_keys:
  "distinct (map d_Order_ID ex_deliveries)"
  "distinct (map r_Order_ID ex_routes)"
  "distinct (map c_Order_ID ex_costs)"
  "map o_Order_ID ex_orders = [''O1'', ''O2'', ''O3'', ''O4'']"
  by (simp_all add: ex_deliveries_def ex_routes_def ex_costs_def ex_orders_def
        ex_delivery_def ex_route_def ex_cost_def ex_order_def)

theorem merge_cardinality_witness:
  "distinct (map d_Order_ID ex_deliveries) \<and> distinct (map r_Order_ID ex_routes)
   \<and> distinct (map c_Order_ID ex_costs) \<and> distinct (map o_Order_ID ex_orders)
   \<and> map Order_ID (load_merged ex_orders ex_deliveries ex_routes ex_costs ex_feedback) =
       [''O1'', ''O2'', ''O3'', ''O4'']
   \<and> distinct (map Order_ID (load_merged ex_orders ex_deliveries ex_routes ex_costs ex_feedback))"
  using merge_cardinality [of ex_orders ex_deliveries ex_routes ex_costs ex_feedback] ex_keys
  by simp

section \<open>Feedback aggregation per order\<close>

lemma pd_mean_of_cell:
  "pd_mean (map of_cell cs) =
     (if dropna cs = [] then NaN
      else Fin (sum_list (dropna cs) / of_nat (length (dropna cs))))"
  by (simp add: pd_mean_def Let_def notna_of_cell pd_sum_of_cell sum_dropna)

lemma max_count_ge:
  assumes "vals \<noteq> []"
  shows "count_list vals c \<le> Max (set (map (count_list vals) vals))"
proof (cases "c \<in> set vals")
  case True
  then show ?thesis by (intro Max_ge) auto
next
  case False
  then show ?thesis by (simp add: count_list_0_iff)
qed

lemma max_count_attained:
  assumes "vals \<noteq> []"
  shows "\<exists>c\<in>set vals. count_list vals c = Max (set (map (count_list vals) vals))"
proof -
  have "Max (set (map (count_list vals) vals)) \<in> set (map (count_list vals) vals)"
    using assms by (intro Max_in) auto
  then show ?thesis by auto
qed

lemma sort_head_least:
  assumes "sort ys = m # rest"
  shows "m \<in> set ys \<and> (\<forall>y\<in>set ys. m \<le> y)"
proof -
  have "sorted (m # rest)"
    using assms sorted_sort [of ys] by simp
  moreover have "set ys = set (m # rest)"
    using assms set_sort [of "\<lambda>x. x" ys] by simp
  ultimately show ?thesis by auto
qed

lemma issue_category_agg_null:
  "dropna x = [] \<Longrightarrow> issue_category_agg x = ''None''"
  by (simp add: issue_category_agg_def pd_mode_def)

lemma issue_category_agg_mode:
  assumes ne: "dropna x \<noteq> []"
  shows "issue_category_agg x \<in> set (dropna x)
       \<and> (\<forall>c. count_list (dropna x) c \<le> count_list (dropna x) (issue_category_agg x))
       \<and> (\<forall>c. count_list (dropna x) c = count_list (dropna x) (issue_category_agg x) \<longrightarrow>
              issue_category_agg x \<le> c)"
proof -
  let ?vals = "dropna x"
  let ?M = "Max (set (map (count_list ?vals) ?vals))"
  let ?cands = "filter (\<lambda>c. count_list ?vals c = ?M) ?vals"
  have mode: "pd_mode x = sort (remdups ?cands)"
    using ne by (simp add: pd_mode_def Let_def)
  from max_count_attained [OF ne] have "?cands \<noteq> []"
    by (auto simp: filter_empty_conv)
  then have "length (remdups ?cands) \<noteq> 0"
    by (simp only: length_0_conv remdups_eq_nil_iff not_False_eq_True)
  then have "length (sort (remdups ?cands)) \<noteq> 0"
    by (simp only: length_sort not_False_eq_True)
  then have "sort (remdups ?cands) \<noteq> []"
    by (simp only: length_0_conv not_False_eq_True)
  then obtain m rest where mr: "sort (remdups ?cands) = m # rest"
    by (cases "sort (remdups ?cands)") auto
  then have agg: "issue_category_agg x = m"
    by (simp add: issue_category_agg_def mode)
  from sort_head_least [OF mr]
  have m_in: "m \<in> set ?cands" and m_least: "\<forall>y\<in>set ?cands. m \<le> y"
    by auto
  from m_in have m1: "m \<in> set ?vals" and m2: "count_list ?vals m = ?M"
    by auto
  have ge: "count_list ?vals c \<le> count_list ?vals m" for c
    unfolding m2 using ne by (rule max_count_ge)
  have least: "m \<le> c" if "count_list ?vals c = count_list ?vals m" for c
  proof -
    from m1 have "count_list ?vals m \<noteq> 0"
      by (simp only: count_list_0_iff not_not)
    with that have "count_list ?vals c \<noteq> 0"
      by simp
    then have "c \<in> set ?vals"
      by (simp only: count_list_0_iff not_not)
    with that m2 have "c \<in> set ?cands" by simp
    with m_least show ?thesis by blast
  qed
  from m1 ge least show ?thesis
    unfolding agg by blast
qed

lemma filter_distinct_eq:
  "distinct xs \<Longrightarrow> x \<in> set xs \<Longrightarrow> filter (\<lambda>y. y = x) xs = [x]"
  by (induction xs) (auto simp: filter_empty_conv)

lemma feedback_agg_row:
  assumes "k \<in> f_Order_ID ` set feedback"
  shows "filter (\<lambda>a. fa_Order_ID a = k) (feedback_agg feedback) =
     [\<lparr>fa_Order_ID = k,
       fa_Rating = pd_mean (map (\<lambda>f. of_cell (f_Rating f)) (feedback_group feedback k)),
       fa_Issue_Category = issue_category_agg (map f_Issue_Category (feedback_group feedback k))\<rparr>]"
proof -
  let ?keys = "sort (remdups (map f_Order_ID feedback))"
  have "filter (\<lambda>y. y = k) ?keys = [k]"
    using assms by (intro filter_distinct_eq) auto
  then show ?thesis
    by (simp add: feedback_agg_def filter_map comp_def)
qed

text \<open>
  C7 as stated fails on ties: the feedback of order \<open>O1\<close> names "Late" first and "Damaged"
  second, once each; the aggregate holds "Damaged", the first-encountered value is "Late".
\<close>

theorem feedback_mode_tie_counterexample:
  "map f_Issue_Category (feedback_group ex_feedback ''O1'') = [Some ''Late'', Some ''Damaged'']
   \<and> map fa_Issue_Category (filter (\<lambda>a. fa_Order_ID a = ''O1'') (feedback_agg ex_feedback))
       = [''Damaged'']
   \<and> first_encountered_mode (map f_Issue_Category (feedback_group ex_feedback ''O1'')) = ''Late''"
  by (simp add: ex_feedback_agg)
     (simp add: feedback_group_def ex_feedback_def ex_fb_def first_encountered_mode_def)

text \<open>
  C7, amended. For every Order_ID that occurs in the feedback table the aggregation
  produces exactly one row. Its Rating is the mean of the group's non-null ratings (null
  when there is none). Its Issue_Category is a most frequent non-null category of the
  group, and among equally frequent ones the least in the lexicographic order of strings;
  it is the literal string "None" when the group has no non-null category.
\<close>

theorem feedback_agg_group:
  assumes "k \<in> f_Order_ID ` set feedback"
  shows "\<exists>a. filter (\<lambda>a. fa_Order_ID a = k) (feedback_agg feedback) = [a]
     \<and> fa_Rating a =
         (if dropna (map f_Rating (filter (\<lambda>f. f_Order_ID f = k) feedback)) = [] then NaN
          else Fin (sum_list (dropna (map f_Rating (filter (\<lambda>f. f_Order_ID f = k) feedback)))
                    / of_nat (length (dropna (map f_Rating (filter (\<lambda>f. f_Order_ID f = k) feedback))))))
     \<and> (dropna (map f_Issue_Category (filter (\<lambda>f. f_Order_ID f = k) feedback)) = [] \<longrightarrow>
          fa_Issue_Category a = ''None'')
     \<and> (dropna (map f_Issue_Category (filter (\<lambda>f. f_Order_ID f = k) feedback)) \<noteq> [] \<longrightarrow>
          fa_Issue_Category a \<in> set (dropna (map f_Issue_Category (filter (\<lambda>f. f_Order_ID f = k) feedback)))
          \<and> (\<forall>c. count_list (dropna (map f_Issue_Category (filter (\<lambda>f. f_Order_ID f = k) feedback))) c
                 \<le> count_list (dropna (map f_Issue_Category (filter (\<lambda>f. f_Order_ID f = k) feedback)))
                      (fa_Issue_Category a))
          \<and> (\<forall>c. count_list (dropna (map f_Issue_Category (filter (\<lambda>f. f_Order_ID f = k) feedback))) c
                 = count_list (dropna (map f_Issue_Category (filter (\<lambda>f. f_Order_ID f = k) feedback)))
                      (fa_Issue_Category a)
               \<longrightarrow> fa_Issue_Category a \<le> c))"
proof -
  let ?grp = "filter (\<lambda>f. f_Order_ID f = k) feedback"
  let ?a = "\<lparr>fa_Order_ID = k,
       fa_Rating = pd_mean (map (\<lambda>f. of_cell (f_Rating f)) ?grp),
       fa_Issue_Category = issue_category_agg (map f_Issue_Category ?grp)\<rparr>"
  have row: "filter (\<lambda>a. fa_Order_ID a = k) (feedback_agg feedback) = [?a]"
    using feedback_agg_row [OF assms] by (simp add: feedback_group_def)
  have "map (\<lambda>f. of_cell (f_Rating f)) ?grp = map of_cell (map f_Rating ?grp)"
    by (simp add: comp_def)
  then have rating: "fa_Rating ?a =
         (if dropna (map f_Rating ?grp) = [] then NaN
          else Fin (sum_list (dropna (map f_Rating ?grp))
                    / of_nat (length (dropna (map f_Rating ?grp)))))"
    by (simp only: pd_mean_of_cell feedback_agg_row.simps)
  have null: "dropna (map f_Issue_Category ?grp) = [] \<longrightarrow> fa_Issue_Category ?a = ''None''"
    by (simp add: issue_category_agg_null)
  have mode: "dropna (map f_Issue_Category ?grp) \<noteq> [] \<longrightarrow>
          fa_Issue_Category ?a \<in> set (dropna (map f_Issue_Category ?grp))
          \<and> (\<forall>c. count_list (dropna (map f_Issue_Category ?grp)) c
                 \<le> count_list (dropna (map f_Issue_Category ?grp)) (fa_Issue_Category ?a))
          \<and> (\<forall>c. count_list (dropna (map f_Issue_Category ?grp)) c
                 = count_list (dropna (map f_Issue_Category ?grp)) (fa_Issue_Category ?a)
               \<longrightarrow> fa_Issue_Category ?a \<le> c)"
    using issue_category_agg_mode [of "map f_Issue_Category ?grp"] by simp
  from row rating null mode show ?thesis
    by (intro exI [of _ ?a] conjI)
qed

theorem feedback_agg_group_witness:
  "''O1'' \<in> f_Order_ID ` set ex_feedback
   \<and> dropna (map f_Issue_Category (filter (\<lambda>f. f_Order_ID f = ''O1'') ex_feedback)) \<noteq> []
   \<and> ''O3'' \<in> f_Order_ID ` set ex_feedback
   \<and> dropna (map f_Issue_Category (filter (\<lambda>f. f_Order_ID f = ''O3'') ex_feedback)) = []
   \<and> (\<exists>a. filter (\<lambda>a. fa_Order_ID a = ''O1'') (feedback_agg ex_feedback) = [a]
          \<and> fa_Rating a = Fin 4 \<and> fa_Issue_Category a \<le> ''Late'')
   \<and> (\<exists>a. filter (\<lambda>a. fa_Order_ID a = ''O3'') (feedback_agg ex_feedback) = [a]
          \<and> fa_Rating a = NaN \<and> fa_Issue_Category a = ''None'')"
proof -
  have k1: "''O1'' \<in> f_Order_ID ` set ex_feedback"
    and k3: "''O3'' \<in> f_Order_ID ` set ex_feedback"
    by (simp_all add: ex_feedback_def ex_fb_def)
  have g1: "filter (\<lambda>f. f_Order_ID f = ''O1'') ex_feedback =
              [ex_fb ''O1'' (Some 5) (Some ''Late''), ex_fb ''O1'' (Some 3) (Some ''Damaged'')]"
    and g3: "filter (\<lambda>f. f_Order_ID f = ''O3'') ex_feedback = [ex_fb ''O3'' None None]"
    by (simp_all add: ex_feedback_def ex_fb_def)
  have c1: "map f_Issue_Category [ex_fb ''O1'' (Some 5) (Some ''Late''), ex_fb ''O1'' (Some 3) (Some ''Damaged'')]
              = [Some ''Late'', Some ''Damaged'']"
    and r1: "map f_Rating [ex_fb ''O1'' (Some 5) (Some ''Late''), ex_fb ''O1'' (Some 3) (Some ''Damaged'')]
              = [Some 5, Some 3]"
    and c3: "map f_Issue_Category [ex_fb ''O3'' None None] = [None]"
    and r3: "map f_Rating [ex_fb ''O3'' None None] = [None]"
    by (simp_all add: ex_fb_def)
  from feedback_agg_group [OF k1] obtain a where
    a: "filter (\<lambda>a. fa_Order_ID a = ''O1'') (feedback_agg ex_feedback) = [a]"
      "fa_Rating a = Fin 4"
      "\<forall>c. count_list [''Late'', ''Damaged''] c = count_list [''Late'', ''Damaged''] (fa_Issue_Category a)
          \<longrightarrow> fa_Issue_Category a \<le> c"
      "fa_Issue_Category a \<in> {''Late'', ''Damaged''}"
    unfolding g1 c1 r1 by auto
  from a(3,4) have "fa_Issue_Category a \<le> ''Late''"
    by auto
  with a have one: "\<exists>a. filter (\<lambda>a. fa_Order_ID a = ''O1'') (feedback_agg ex_feedback) = [a]
          \<and> fa_Rating a = Fin 4 \<and> fa_Issue_Category a \<le> ''Late''"
    by blast
  from feedback_agg_group [OF k3] have three:
    "\<exists>a. filter (\<lambda>a. fa_Order_ID a = ''O3'') (feedback_agg ex_feedback) = [a]
          \<and> fa_Rating a = NaN \<and> fa_Issue_Category a = ''None''"
    unfolding g3 c3 r3 by auto
  from k1 k3 one three show ?thesis
    by (simp add: g1 g3 ex_fb_def)
qed

end
